theory Spec2Isabelle
  imports Complex_Main
begin

section \<open>Floating-point values\<close>

text \<open>
  The library computes on Go \<^verbatim>\<open>float64\<close> values. The embedding keeps the shape of
  IEEE-754 arithmetic that the code branches on (the two infinities and NaN, division by
  zero, comparisons that are false on NaN) and computes exactly on finite values: a finite
  value is a real number, there is no rounding, no overflow and no underflow, and there is
  a single zero, which divides like \<^verbatim>\<open>+0\<close>. So a product of two finite values is finite
  here where float64 may give an infinity, \<open>Exp\<close>, \<open>Pow\<close> and the loop of
  \<open>doubleFactorial\<close> return exact values where Go returns rounded ones or an infinity,
  and \<open>a / (-0.0)\<close> has no counterpart.

  For this reason the theorems of the claims say which operations the code applies, in
  which order and in which branch, and have these same operations on both sides; none of
  them states the value of an arithmetic expression as an exact real number for all
  inputs. Values are computed only at single contracts, where the intermediate results
  are held exactly by float64 or the result falls into a saturated branch of
  \<open>StdNormCDF\<close>.
\<close>

datatype float64 = Fin real | PInf | NInf | NaN

instantiation float64 :: "{zero, one, plus, minus, uminus, times, inverse, ord}"
begin

definition zero_float64 :: float64 where
  "zero_float64 = Fin 0"

definition one_float64 :: float64 where
  "one_float64 = Fin 1"

fun uminus_float64 :: "float64 \<Rightarrow> float64" where
  "uminus_float64 (Fin a) = Fin (- a)"
| "uminus_float64 PInf = NInf"
| "uminus_float64 NInf = PInf"
| "uminus_float64 NaN = NaN"

fun plus_float64 :: "float64 \<Rightarrow> float64 \<Rightarrow> float64" where
  "plus_float64 (Fin a) (Fin b) = Fin (a + b)"
| "plus_float64 NaN y = NaN"
| "plus_float64 x NaN = NaN"
| "plus_float64 PInf NInf = NaN"
| "plus_float64 NInf PInf = NaN"
| "plus_float64 PInf y = PInf"
| "plus_float64 x PInf = PInf"
| "plus_float64 NInf y = NInf"
| "plus_float64 x NInf = NInf"

definition minus_float64 :: "float64 \<Rightarrow> float64 \<Rightarrow> float64" where
  "minus_float64 x y = x + (- y)"

fun times_float64 :: "float64 \<Rightarrow> float64 \<Rightarrow> float64" where
  "times_float64 (Fin a) (Fin b) = Fin (a * b)"
| "times_float64 NaN y = NaN"
| "times_float64 x NaN = NaN"
| "times_float64 PInf (Fin b) = (if b = 0 then NaN else if 0 < b then PInf else NInf)"
| "times_float64 NInf (Fin b) = (if b = 0 then NaN else if 0 < b then NInf else PInf)"
| "times_float64 (Fin a) PInf = (if a = 0 then NaN else if 0 < a then PInf else NInf)"
| "times_float64 (Fin a) NInf = (if a = 0 then NaN else if 0 < a then NInf else PInf)"
| "times_float64 PInf PInf = PInf"
| "times_float64 NInf NInf = PInf"
| "times_float64 PInf NInf = NInf"
| "times_float64 NInf PInf = NInf"

fun divide_float64 :: "float64 \<Rightarrow> float64 \<Rightarrow> float64" where
  "divide_float64 (Fin a) (Fin b) =
     (if b = 0 then (if a = 0 then NaN else if 0 < a then PInf else NInf)
      else Fin (a / b))"
| "divide_float64 NaN y = NaN"
| "divide_float64 x NaN = NaN"
| "divide_float64 (Fin a) PInf = Fin 0"
| "divide_float64 (Fin a) NInf = Fin 0"
| "divide_float64 PInf (Fin b) = (if 0 \<le> b then PInf else NInf)"
| "divide_float64 NInf (Fin b) = (if 0 \<le> b then NInf else PInf)"
| "divide_float64 x y = NaN"

definition inverse_float64 :: "float64 \<Rightarrow> float64" where
  "inverse_float64 x = divide (Fin 1) x"

fun less_float64 :: "float64 \<Rightarrow> float64 \<Rightarrow> bool" where
  "less_float64 (Fin a) (Fin b) = (a < b)"
| "less_float64 NaN y = False"
| "less_float64 x NaN = False"
| "less_float64 x NInf = False"
| "less_float64 PInf y = False"
| "less_float64 NInf y = True"
| "less_float64 x PInf = True"

fun less_eq_float64 :: "float64 \<Rightarrow> float64 \<Rightarrow> bool" where
  "less_eq_float64 (Fin a) (Fin b) = (a \<le> b)"
| "less_eq_float64 NaN y = False"
| "less_eq_float64 x NaN = False"
| "less_eq_float64 NInf y = True"
| "less_eq_float64 x PInf = True"
| "less_eq_float64 x NInf = False"
| "less_eq_float64 PInf y = False"

instance ..

end

text \<open>Go's \<^verbatim>\<open>==\<close> on floats: NaN is equal to nothing, itself included.\<close>

definition feq :: "float64 \<Rightarrow> float64 \<Rightarrow> bool" where
  "feq x y = (x = y \<and> x \<noteq> NaN)"

text \<open>\<^verbatim>\<open>math.IsInf(f, 0)\<close> and \<^verbatim>\<open>math.IsNaN(f)\<close>.\<close>

definition IsInf :: "float64 \<Rightarrow> bool" where
  "IsInf f = (f = PInf \<or> f = NInf)"

definition IsNaN :: "float64 \<Rightarrow> bool" where
  "IsNaN f = (f = NaN)"

text \<open>\<^verbatim>\<open>math.Exp\<close>, \<^verbatim>\<open>math.Log\<close>, \<^verbatim>\<open>math.Sqrt\<close> with their documented special cases.\<close>

fun Exp :: "float64 \<Rightarrow> float64" where
  "Exp (Fin a) = Fin (exp a)"
| "Exp PInf = PInf"
| "Exp NInf = Fin 0"
| "Exp NaN = NaN"

fun Log :: "float64 \<Rightarrow> float64" where
  "Log (Fin a) = (if a < 0 then NaN else if a = 0 then NInf else Fin (ln a))"
| "Log PInf = PInf"
| "Log NInf = NaN"
| "Log NaN = NaN"

fun Sqrt :: "float64 \<Rightarrow> float64" where
  "Sqrt (Fin a) = (if a < 0 then NaN else Fin (sqrt a))"
| "Sqrt PInf = PInf"
| "Sqrt NInf = NaN"
| "Sqrt NaN = NaN"

text \<open>
  \<^verbatim>\<open>math.Pow(x, y)\<close>, following the special cases of its documentation in the
  documented order. With a single zero, \<^verbatim>\<open>Pow(0, y)\<close> for \<open>y < 0\<close> is \<^verbatim>\<open>+Inf\<close>.
\<close>

definition is_integer :: "real \<Rightarrow> bool" where
  "is_integer y = (of_int \<lfloor>y\<rfloor> = y)"

definition odd_integer :: "real \<Rightarrow> bool" where
  "odd_integer y = (is_integer y \<and> odd \<lfloor>y\<rfloor>)"

fun pow_cases :: "float64 \<Rightarrow> float64 \<Rightarrow> float64" where
  "pow_cases (Fin a) (Fin y) =
     (if a = 0 then (if y < 0 then PInf else Fin 0)
      else if is_integer y then Fin (a powi \<lfloor>y\<rfloor>)
      else if a < 0 then NaN
      else Fin (a powr y))"
| "pow_cases (Fin a) PInf =
     (if a = 0 then Fin 0 else if a = - 1 then Fin 1
      else if 1 < \<bar>a\<bar> then PInf else Fin 0)"
| "pow_cases (Fin a) NInf =
     (if a = 0 then PInf else if a = - 1 then Fin 1
      else if 1 < \<bar>a\<bar> then Fin 0 else PInf)"
| "pow_cases PInf (Fin y) = (if 0 < y then PInf else Fin 0)"
| "pow_cases PInf PInf = PInf"
| "pow_cases PInf NInf = Fin 0"
| "pow_cases NInf (Fin y) =
     (if 0 < y then (if odd_integer y then NInf else PInf) else Fin 0)"
| "pow_cases NInf PInf = PInf"
| "pow_cases NInf NInf = Fin 0"
| "pow_cases x y = NaN"

definition Pow :: "float64 \<Rightarrow> float64 \<Rightarrow> float64" where
  "Pow x y =
     (if y = Fin 0 then Fin 1
      else if x = Fin 1 then Fin 1
      else if y = Fin 1 then x
      else if x = NaN \<or> y = NaN then NaN
      else pow_cases x y)"

text \<open>
  \<^verbatim>\<open>int(f)\<close>: the conversion truncates towards zero. For a value that \<^verbatim>\<open>int\<close> cannot
  hold (NaN, an infinity, a magnitude of \<open>2^63\<close> or more) Go leaves the result to the
  implementation; the model takes the amd64 result, the smallest 64-bit integer.
\<close>

definition go_int :: "float64 \<Rightarrow> int" where
  "go_int f =
     (case f of
        Fin a \<Rightarrow>
          (let z = (if 0 \<le> a then \<lfloor>a\<rfloor> else \<lceil>a\<rceil>)
           in if - (2 ^ 63) \<le> z \<and> z < 2 ^ 63 then z else - (2 ^ 63))
      | _ \<Rightarrow> - (2 ^ 63))"

text \<open>\<^verbatim>\<open>math.Pi\<close>.\<close>

definition Pi :: float64 where
  "Pi = Fin pi"

section \<open>blackscholes.go\<close>

definition isFinite :: "float64 \<Rightarrow> bool" where
  "isFinite f = (\<not> IsInf f \<and> \<not> IsNaN f)"

text \<open>
  \<^verbatim>\<open>doubleFactorial(n)\<close>: \<^verbatim>\<open>val := 1.0; for i := n; i > 1; i -= 2 { val *= i }\<close>.
  The function is unexported and its one caller passes \<^verbatim>\<open>float64(2*i+1)\<close> for an
  integer \<open>i\<close>, a finite value; the model takes that finite value. (On \<^verbatim>\<open>+Inf\<close> the
  Go loop would not end.)
\<close>

function doubleFactorial_loop :: "real \<Rightarrow> float64 \<Rightarrow> float64" where
  "doubleFactorial_loop i val =
     (if 1 < i then doubleFactorial_loop (i - 2) (val * Fin i) else val)"
  by pat_completeness auto
termination
  by (relation "measure (\<lambda>(i, val). nat \<lceil>i\<rceil>)") (auto simp: nat_less_iff)

declare doubleFactorial_loop.simps [simp del]

definition doubleFactorial :: "real \<Rightarrow> float64" where
  "doubleFactorial n = doubleFactorial_loop n (Fin 1)"

text \<open>
  The series loop of \<^verbatim>\<open>StdNormCDF\<close>:
  \<^verbatim>\<open>for i := 0; i < 100; i++ { probability += Pow(x, float64(2*i+1)) / doubleFactorial(float64(2*i+1)) }\<close>.
\<close>

function StdNormCDF_loop :: "float64 \<Rightarrow> int \<Rightarrow> float64 \<Rightarrow> float64" where
  "StdNormCDF_loop x i probability =
     (if i < 100
      then StdNormCDF_loop x (i + 1)
             (probability
                + Pow x (Fin (of_int (2 * i + 1))) / doubleFactorial (of_int (2 * i + 1)))
      else probability)"
  by pat_completeness auto
termination
  by (relation "measure (\<lambda>(x, i, p). nat (100 - i))") auto

declare StdNormCDF_loop.simps [simp del]

definition StdNormCDF :: "float64 \<Rightarrow> float64" where
  "StdNormCDF x =
     (if Fin 8 \<le> x then Fin 1
      else if x \<le> Fin (- 8) then Fin 0
      else
        let probability = StdNormCDF_loop x 0 (Fin 0);
            probability = probability * Exp (Fin (- 0.5) * Pow x (Fin 2));
            probability = probability / Sqrt (Fin 2 * Pi)
        in probability + Fin 0.5)"

definition BlackScholes ::
  "float64 \<Rightarrow> float64 \<Rightarrow> float64 \<Rightarrow> float64 \<Rightarrow> float64 \<Rightarrow> string \<Rightarrow> float64" where
  "BlackScholes s k t v r callPut =
     (let w = (r * t + Pow v (Fin 2) * t / Fin 2 - Log (k / s)) / (v * Sqrt t)
      in if callPut = ''CALL''
         then s * StdNormCDF w - k * Exp (- r * t) * StdNormCDF (w - v * Sqrt t)
         else k * Exp (- r * t) * StdNormCDF (v * Sqrt t - w) - s * StdNormCDF (- w))"

definition GetW :: "float64 \<Rightarrow> float64 \<Rightarrow> float64 \<Rightarrow> float64 \<Rightarrow> float64 \<Rightarrow> float64" where
  "GetW s k t v r = (r * t + Pow v (Fin 2) * t / Fin 2 - Log (k / s)) / (v * Sqrt t)"

section \<open>The implied-volatility solver\<close>

text \<open>
  \<^verbatim>\<open>GetImpliedVolatility(expectedCost, s, k, t, r, callPut, estimate)\<close>. The loop
  \<^verbatim>\<open>for i := 0; i < 100; i++\<close> carries \<open>low\<close>, \<open>high\<close> and \<open>estimate\<close>; \<^verbatim>\<open>break\<close>
  leaves it with the current \<open>estimate\<close>. The local \<^verbatim>\<open>actualCost\<close> is
  \<^verbatim>\<open>BlackScholes(s, k, t, estimate, r, callPut)\<close>, written out where it is read.
\<close>

function GetImpliedVolatility_loop ::
  "float64 \<Rightarrow> float64 \<Rightarrow> float64 \<Rightarrow> float64 \<Rightarrow> float64 \<Rightarrow> string
     \<Rightarrow> int \<Rightarrow> float64 \<Rightarrow> float64 \<Rightarrow> float64 \<Rightarrow> float64" where
  "GetImpliedVolatility_loop expectedCost s k t r callPut i low high estimate =
     (if i < 100 then
        (if go_int (expectedCost * Fin 100)
              = go_int (BlackScholes s k t estimate r callPut * Fin 100)
         then estimate
         else if BlackScholes s k t estimate r callPut > expectedCost
         then GetImpliedVolatility_loop expectedCost s k t r callPut (i + 1)
                low estimate ((estimate - low) / Fin 2 + low)
         else GetImpliedVolatility_loop expectedCost s k t r callPut (i + 1)
                estimate high
                (if \<not> isFinite ((high - estimate) / Fin 2 + estimate)
                 then estimate * Fin 2
                 else (high - estimate) / Fin 2 + estimate))
      else estimate)"
  by pat_completeness auto
termination
  by (relation "measure (\<lambda>(c, s, k, t, r, cp, i, lo, hi, e). nat (100 - i))") auto

declare GetImpliedVolatility_loop.simps [simp del]

definition GetImpliedVolatility ::
  "float64 \<Rightarrow> float64 \<Rightarrow> float64 \<Rightarrow> float64 \<Rightarrow> float64 \<Rightarrow> string \<Rightarrow> float64 \<Rightarrow> float64" where
  "GetImpliedVolatility expectedCost s k t r callPut estimate =
     GetImpliedVolatility_loop expectedCost s k t r callPut 0 (Fin 0) PInf
       (if feq estimate (Fin 0) then Fin 0.1 else estimate)"

section \<open>greeks.go\<close>

definition callDelta :: "float64 \<Rightarrow> float64 \<Rightarrow> float64 \<Rightarrow> float64 \<Rightarrow> float64 \<Rightarrow> float64" where
  "callDelta s k t v r =
     (let w = GetW s k t v r
      in if \<not> isFinite w then (if s > k then Fin 1 else Fin 0)
         else StdNormCDF w)"

definition putDelta :: "float64 \<Rightarrow> float64 \<Rightarrow> float64 \<Rightarrow> float64 \<Rightarrow> float64 \<Rightarrow> float64" where
  "putDelta s k t v r =
     (let delta = callDelta s k t v r - Fin 1
      in if feq delta (Fin (- 1)) \<and> feq k s then Fin 0 else delta)"

text \<open>
  \<^verbatim>\<open>GetDelta\<close> returns a value and an \<^verbatim>\<open>error\<close>: \<open>None\<close> is \<^verbatim>\<open>nil\<close>, \<open>Some m\<close> the
  error that \<^verbatim>\<open>fmt.Errorf\<close> builds, with its message \<open>m\<close>.
\<close>

definition GetDelta ::
  "float64 \<Rightarrow> float64 \<Rightarrow> float64 \<Rightarrow> float64 \<Rightarrow> float64 \<Rightarrow> string \<Rightarrow> float64 \<times> string option" where
  "GetDelta s k t v r callPut =
     (if callPut = ''CALL'' then (callDelta s k t v r, None)
      else if callPut = ''PUT'' then (putDelta s k t v r, None)
      else (Fin 0, Some (''callput is not of type CALL or PUT '' @ callPut)))"

definition callRho :: "float64 \<Rightarrow> float64 \<Rightarrow> float64 \<Rightarrow> float64 \<Rightarrow> float64 \<Rightarrow> float64" where
  "callRho s k t v r =
     (let w = GetW s k t v r
      in if \<not> IsNaN w then k * t * Exp (- r * t) * StdNormCDF (w - v * Sqrt t)
         else Fin 0)"

definition putRho :: "float64 \<Rightarrow> float64 \<Rightarrow> float64 \<Rightarrow> float64 \<Rightarrow> float64 \<Rightarrow> float64" where
  "putRho s k t v r =
     (let w = GetW s k t v r
      in if \<not> IsNaN w then - k * t * Exp (- r * t) * StdNormCDF (v * Sqrt t - w)
         else Fin 0)"

text \<open>\<^verbatim>\<open>scale\<close> is a Go \<^verbatim>\<open>int\<close>; \<^verbatim>\<open>float64(scale)\<close> is its value.\<close>

definition GetRho ::
  "float64 \<Rightarrow> float64 \<Rightarrow> float64 \<Rightarrow> float64 \<Rightarrow> float64 \<Rightarrow> string \<Rightarrow> int \<Rightarrow> float64" where
  "GetRho s k t v r callPut scale =
     (let scale = (if scale = 0 then 100 else scale)
      in if callPut = ''call'' then callRho s k t v r / Fin (of_int scale)
         else putRho s k t v r / Fin (of_int scale))"

section \<open>The specification's formulas\<close>

text \<open>
  The intermediate term of section 3, \<open>w = (r\<cdot>t + v\<^sup>2\<cdot>t/2 - ln(k/s)) / (v\<cdot>\<surd>t)\<close>, taken with
  the operations of float64 (the square is \<^verbatim>\<open>math.Pow(v, 2)\<close>).
\<close>

definition w_formula :: "float64 \<Rightarrow> float64 \<Rightarrow> float64 \<Rightarrow> float64 \<Rightarrow> float64 \<Rightarrow> float64" where
  "w_formula s k t v r = (r * t + Pow v (Fin 2) * t / Fin 2 - Log (k / s)) / (v * Sqrt t)"

text \<open>
  The same term on real numbers. It is used only to evaluate the pricer at the single
  contracts of the counterexamples further down.
\<close>

definition w_spec :: "real \<Rightarrow> real \<Rightarrow> real \<Rightarrow> real \<Rightarrow> real \<Rightarrow> real" where
  "w_spec s k t v r = (r * t + v\<^sup>2 * t / 2 - ln (k / s)) / (v * sqrt t)"

text \<open>
  The series of section 4.1 with the operations of float64. The double factorial
  \<open>(2i+1)!!\<close> is the product \<open>(2i+1) \<cdot> (2i-1) \<cdots> 3\<close>, multiplied from the largest factor
  down; the series is the sum of the terms \<open>x^(2i+1) / (2i+1)!!\<close> for \<open>i = 0, \<dots>, 99\<close>, added
  in this order.
\<close>

definition double_factorial_product :: "nat \<Rightarrow> float64" where
  "double_factorial_product i =
     foldl (\<lambda>val j. val * Fin (real (2 * j + 1))) (Fin 1) (rev [1..<Suc i])"

definition series_sum :: "float64 \<Rightarrow> float64" where
  "series_sum x =
     foldl (\<lambda>p i. p + Pow x (Fin (real (2 * i + 1))) / double_factorial_product i)
       (Fin 0) [0..<100]"

text \<open>
  The specification's bisection (section 4.4, steps 2 and 3), for a pricing function
  \<open>price\<close> of the volatility and a test \<open>same_cent\<close> of step 2b, run for at most \<open>n\<close>
  iterations from the bounds \<open>low\<close> and \<open>high\<close>.
\<close>

fun bisection_spec ::
  "(float64 \<Rightarrow> float64 \<Rightarrow> bool) \<Rightarrow> (float64 \<Rightarrow> float64) \<Rightarrow> float64
     \<Rightarrow> nat \<Rightarrow> float64 \<Rightarrow> float64 \<Rightarrow> float64 \<Rightarrow> float64" where
  "bisection_spec same_cent price targetPrice 0 low high estimate = estimate"
| "bisection_spec same_cent price targetPrice (Suc n) low high estimate =
     (if same_cent targetPrice (price estimate) then estimate
      else if price estimate > targetPrice
      then bisection_spec same_cent price targetPrice n
             low estimate (low + (estimate - low) / Fin 2)
      else bisection_spec same_cent price targetPrice n
             estimate high
             (if isFinite (estimate + (high - estimate) / Fin 2)
              then estimate + (high - estimate) / Fin 2
              else estimate * Fin 2))"

text \<open>
  The operation \<^verbatim>\<open>impliedVolatility(targetPrice, k, s, t, r, kind, initialEstimate)\<close> of
  section 4.4: the seed of step 1, then the bisection on
  \<^verbatim>\<open>price(s, k, t, estimate, r, kind)\<close> between \<open>0\<close> and \<open>+\<infinity>\<close>.
\<close>

definition impliedVolatility_spec ::
  "(float64 \<Rightarrow> float64 \<Rightarrow> bool) \<Rightarrow> float64 \<Rightarrow> float64 \<Rightarrow> float64 \<Rightarrow> float64 \<Rightarrow> float64
     \<Rightarrow> string \<Rightarrow> float64 \<Rightarrow> float64" where
  "impliedVolatility_spec same_cent targetPrice k s t r kind initialEstimate =
     bisection_spec same_cent (\<lambda>estimate. BlackScholes s k t estimate r kind) targetPrice
       100 (Fin 0) PInf
       (if feq initialEstimate (Fin 0) then Fin 0.1 else initialEstimate)"

text \<open>
  Two readings of step 2b. \<open>cent_floor\<close> is the specification's
  \<^verbatim>\<open>floor(targetPrice*100) == floor(actualCost*100)\<close>, with the floor of a float
  (an infinity and NaN are their own floor). \<open>cent_trunc\<close> compares the two values
  after Go's conversion to \<^verbatim>\<open>int\<close>.
\<close>

fun Floor :: "float64 \<Rightarrow> float64" where
  "Floor (Fin a) = Fin (of_int \<lfloor>a\<rfloor>)"
| "Floor x = x"

definition cent_floor :: "float64 \<Rightarrow> float64 \<Rightarrow> bool" where
  "cent_floor targetPrice actualCost
     = feq (Floor (targetPrice * Fin 100)) (Floor (actualCost * Fin 100))"

definition cent_trunc :: "float64 \<Rightarrow> float64 \<Rightarrow> bool" where
  "cent_trunc targetPrice actualCost
     = (go_int (targetPrice * Fin 100) = go_int (actualCost * Fin 100))"

section \<open>Arithmetic of the model\<close>

lemma minus_Fin [simp]: "Fin a - Fin b = Fin (a - b)"
  by (simp add: minus_float64_def)

lemma fadd_commute: "(x::float64) + y = y + x"
  by (cases x; cases y) simp_all

lemma fmul_uminus_left: "- (x::float64) * y = - (x * y)"
  by (cases x; cases y) simp_all

lemma divide_Fin: "d \<noteq> 0 \<Longrightarrow> Fin x / Fin d = Fin (x / d)"
  by simp

lemma Pow_Fin_nat: "Pow (Fin a) (Fin (real n)) = Fin (a ^ n)"
  by (simp add: Pow_def is_integer_def power_0_left)

lemma Pow_Fin_2: "Pow (Fin a) (Fin 2) = Fin (a\<^sup>2)"
  using Pow_Fin_nat [of a 2] by simp

lemma half_uminus: "Fin (- 0.5) * (y::float64) = - (y / Fin 2)"
  by (cases y) simp_all

lemma feq_commute: "feq x y = feq y x"
  by (auto simp: feq_def)

section \<open>The normal distribution function\<close>

lemma doubleFactorial_loop_product:
  "doubleFactorial_loop (real (2 * i + 1)) val
     = foldl (\<lambda>val j. val * Fin (real (2 * j + 1))) val (rev [1..<Suc i])"
proof (induction i arbitrary: val)
  case 0
  show ?case by (simp add: doubleFactorial_loop.simps [of 1])
next
  case (Suc i)
  have "doubleFactorial_loop (real (2 * Suc i + 1)) val
      = doubleFactorial_loop (real (2 * i + 1)) (val * Fin (real (2 * Suc i + 1)))"
    by (subst doubleFactorial_loop.simps) (simp add: algebra_simps)
  moreover have "rev [1..<Suc (Suc i)] = Suc i # rev [1..<Suc i]" by simp
  ultimately show ?case by (simp only: foldl_Cons Suc.IH)
qed

lemma doubleFactorial_product:
  "doubleFactorial (real (2 * i + 1)) = double_factorial_product i"
  by (simp only: doubleFactorial_def double_factorial_product_def doubleFactorial_loop_product)

lemma StdNormCDF_loop_foldl:
  "i \<le> 100 \<Longrightarrow>
     StdNormCDF_loop x (int i) p
       = foldl (\<lambda>p i. p + Pow x (Fin (real (2 * i + 1))) / double_factorial_product i)
           p [i..<100]"
proof (induction "100 - i" arbitrary: i p)
  case 0
  then have "i = 100" by simp
  then show ?case by (simp add: StdNormCDF_loop.simps [of _ 100])
next
  case (Suc n)
  then have lt: "i < 100" and n: "n = 100 - Suc i" and le: "Suc i \<le> 100" by simp_all
  have idx: "real_of_int (2 * int i + 1) = real (2 * i + 1)" by simp
  have next_i: "int i + 1 = int (Suc i)" by simp
  have step: "StdNormCDF_loop x (int i) p
      = StdNormCDF_loop x (int (Suc i))
          (p + Pow x (Fin (real (2 * i + 1))) / double_factorial_product i)"
    apply (subst StdNormCDF_loop.simps)
    apply (simp only: idx next_i doubleFactorial_product)
    using lt apply simp
    done
  have list: "[i..<100] = i # [Suc i..<100]"
    using lt by (simp add: upt_conv_Cons)
  show ?case
    by (simp only: step Suc.hyps(1) [OF n le] list foldl_Cons)
qed

lemma StdNormCDF_middle:
  assumes "\<not> Fin 8 \<le> x" "\<not> x \<le> Fin (- 8)"
  shows "StdNormCDF x
       = Fin 0.5 + series_sum x * Exp (- (Pow x (Fin 2) / Fin 2)) / Sqrt (Fin 2 * Pi)"
proof -
  have loop: "StdNormCDF_loop x 0 (Fin 0) = series_sum x"
    using StdNormCDF_loop_foldl [of 0 x "Fin 0"] by (simp add: series_sum_def)
  have "StdNormCDF x
      = series_sum x * Exp (Fin (- 0.5) * Pow x (Fin 2)) / Sqrt (Fin 2 * Pi) + Fin 0.5"
    using assms by (simp add: StdNormCDF_def Let_def loop)
  then show ?thesis
    by (simp only: half_uminus fadd_commute [of _ "Fin 0.5"])
qed

text \<open>At 0 every term of the series is 0 divided by a positive product.\<close>

lemma product_positive:
  "0 < p \<Longrightarrow> \<exists>q. 0 < q \<and> foldl (\<lambda>val j. val * Fin (real (2 * j + 1))) (Fin p) js = Fin q"
  by (induction js arbitrary: p) simp_all

lemma double_factorial_product_positive: "\<exists>q. 0 < q \<and> double_factorial_product i = Fin q"
  using product_positive [of 1] by (simp add: double_factorial_product_def)

lemma series_zero:
  "foldl (\<lambda>p i. p + Pow (Fin 0) (Fin (real (2 * i + 1))) / double_factorial_product i)
     (Fin 0) js = Fin 0"
proof (induction js)
  case Nil
  show ?case by simp
next
  case (Cons j js)
  obtain q where q: "0 < q" "double_factorial_product j = Fin q"
    using double_factorial_product_positive by blast
  have "Pow (Fin 0) (Fin (real (2 * j + 1))) = Fin 0"
    by (simp only: Pow_Fin_nat) simp
  then show ?case using q Cons.IH by simp
qed

lemma StdNormCDF_zero: "StdNormCDF (Fin 0) = Fin 0.5"
proof -
  have "series_sum (Fin 0) = Fin 0"
    by (simp only: series_sum_def series_zero)
  then show ?thesis
    using StdNormCDF_middle [of "Fin 0"] by (simp add: Pow_Fin_2 Pi_def)
qed

text \<open>
  Claim C3. \<^verbatim>\<open>StdNormCDF\<close> returns exactly 1 for every \<open>x \<ge> 8\<close> (\<open>+\<infinity>\<close> included),
  exactly 0 for every \<open>x \<le> -8\<close> (\<open>-\<infinity>\<close> included) and exactly 0.5 at 0. For
  \<open>-8 < x < 8\<close> it returns \<open>0.5 + (\<Sum>i=0..99. x^(2i+1) / (2i+1)!!) \<cdot> exp(-x\<^sup>2/2) / \<surd>(2\<pi>)\<close>,
  where every operation is the float64 one: the sum and the double factorials are
  \<open>series_sum\<close> and \<open>double_factorial_product\<close>, the powers are \<^verbatim>\<open>math.Pow\<close>, the sum is
  multiplied by the exponential and the product divided by the root.
\<close>

theorem StdNormCDF_values:
  "(Fin 8 \<le> x \<longrightarrow> StdNormCDF x = Fin 1)
   \<and> (x \<le> Fin (- 8) \<longrightarrow> StdNormCDF x = Fin 0)
   \<and> StdNormCDF (Fin 0) = Fin 0.5
   \<and> (Fin (- 8) < x \<and> x < Fin 8 \<longrightarrow>
        StdNormCDF x
          = Fin 0.5 + series_sum x * Exp (- (Pow x (Fin 2) / Fin 2)) / Sqrt (Fin 2 * Pi))"
proof -
  have hi: "Fin 8 \<le> x \<longrightarrow> StdNormCDF x = Fin 1"
    by (simp add: StdNormCDF_def)
  have lo: "x \<le> Fin (- 8) \<longrightarrow> StdNormCDF x = Fin 0"
    by (cases x) (simp_all add: StdNormCDF_def)
  have mid: "Fin (- 8) < x \<and> x < Fin 8 \<longrightarrow>
      StdNormCDF x
        = Fin 0.5 + series_sum x * Exp (- (Pow x (Fin 2) / Fin 2)) / Sqrt (Fin 2 * Pi)"
  proof
    assume b: "Fin (- 8) < x \<and> x < Fin 8"
    then have "\<not> Fin 8 \<le> x" "\<not> x \<le> Fin (- 8)" by (cases x; simp)+
    then show "StdNormCDF x
        = Fin 0.5 + series_sum x * Exp (- (Pow x (Fin 2) / Fin 2)) / Sqrt (Fin 2 * Pi)"
      by (rule StdNormCDF_middle)
  qed
  show ?thesis using hi lo mid StdNormCDF_zero by blast
qed

theorem StdNormCDF_values_witness:
  "Fin 8 \<le> PInf \<and> StdNormCDF PInf = Fin 1
   \<and> Fin (- 9) \<le> Fin (- 8) \<and> StdNormCDF (Fin (- 9)) = Fin 0
   \<and> Fin (- 8) < Fin 1 \<and> Fin 1 < Fin 8
   \<and> StdNormCDF (Fin 1)
        = Fin 0.5 + series_sum (Fin 1) * Exp (- (Pow (Fin 1) (Fin 2) / Fin 2))
            / Sqrt (Fin 2 * Pi)"
proof -
  have a: "Fin 8 \<le> PInf" and b: "Fin (- 9) \<le> Fin (- 8)"
    and c: "Fin (- 8) < Fin 1 \<and> Fin 1 < Fin 8"
    by simp_all
  show ?thesis
    using a b c StdNormCDF_values [of PInf] StdNormCDF_values [of "Fin (- 9)"]
      StdNormCDF_values [of "Fin 1"]
    by blast
qed

lemma StdNormCDF_low: "x \<le> - 8 \<Longrightarrow> StdNormCDF (Fin x) = Fin 0"
  by (simp add: StdNormCDF_def)

lemma StdNormCDF_high: "8 \<le> x \<Longrightarrow> StdNormCDF (Fin x) = Fin 1"
  by (simp add: StdNormCDF_def)

section \<open>The pricer\<close>

text \<open>
  \<open>GetW_Fin\<close> and \<open>BlackScholes_Fin_CALL\<close> evaluate the model on real numbers. They
  serve the contracts of the counterexamples further down, where they are applied with
  small parameters; for float64 they hold only as far as no intermediate result is
  rounded or overflows.
\<close>

lemma GetW_Fin:
  assumes "0 < s" "0 < k" "0 < t" "0 < v"
  shows "GetW (Fin s) (Fin k) (Fin t) (Fin v) (Fin r) = Fin (w_spec s k t v r)"
proof -
  have pos: "0 < k / s" using assms by simp
  have "\<not> k / s < 0" using pos by (simp add: not_less less_imp_le del: zero_less_divide_iff)
  moreover have "k / s \<noteq> 0" using assms by simp
  ultimately have "Log (Fin k / Fin s) = Fin (ln (k / s))" using assms by simp
  then show ?thesis
    using assms by (simp add: GetW_def w_spec_def Pow_Fin_2 divide_Fin del: divide_float64.simps)
qed

lemma BlackScholes_GetW:
  "BlackScholes s k t v r callPut =
     (if callPut = ''CALL''
      then s * StdNormCDF (GetW s k t v r)
             - k * Exp (- r * t) * StdNormCDF (GetW s k t v r - v * Sqrt t)
      else k * Exp (- r * t) * StdNormCDF (v * Sqrt t - GetW s k t v r)
             - s * StdNormCDF (- GetW s k t v r))"
  by (simp add: BlackScholes_def GetW_def Let_def)

lemma BlackScholes_Fin_CALL:
  assumes "0 < s" "0 < k" "0 < t" "0 < v"
  shows "BlackScholes (Fin s) (Fin k) (Fin t) (Fin v) (Fin r) ''CALL''
           = Fin s * StdNormCDF (Fin (w_spec s k t v r))
               - Fin k * Fin (exp (- (r * t))) * StdNormCDF (Fin (w_spec s k t v r - v * sqrt t))"
  using assms by (simp add: BlackScholes_GetW GetW_Fin)

text \<open>
  Claim C2. With \<open>w = (r\<cdot>t + v\<^sup>2\<cdot>t/2 - ln(k/s)) / (v\<cdot>\<surd>t)\<close>, \<^verbatim>\<open>BlackScholes\<close> returns
  \<open>s\<cdot>\<Phi>(w) - k\<cdot>e^(-r\<cdot>t)\<cdot>\<Phi>(w - v\<surd>t)\<close> for CALL and \<open>k\<cdot>e^(-r\<cdot>t)\<cdot>\<Phi>(v\<surd>t - w) - s\<cdot>\<Phi>(-w)\<close>
  for PUT, where \<open>\<Phi>\<close> is \<^verbatim>\<open>StdNormCDF\<close> and every operation is the float64 one; \<^verbatim>\<open>GetW\<close>
  returns the same \<open>w\<close>. This holds for every input, the positive ones of the claim
  included.
\<close>

theorem BlackScholes_formula:
  "BlackScholes s k t v r ''CALL''
     = s * StdNormCDF (w_formula s k t v r)
         - k * Exp (- (r * t)) * StdNormCDF (w_formula s k t v r - v * Sqrt t)
   \<and> BlackScholes s k t v r ''PUT''
     = k * Exp (- (r * t)) * StdNormCDF (v * Sqrt t - w_formula s k t v r)
         - s * StdNormCDF (- w_formula s k t v r)
   \<and> GetW s k t v r = w_formula s k t v r"
  by (simp add: BlackScholes_def GetW_def w_formula_def Let_def fmul_uminus_left)

lemma w_formula_at_the_money:
  "w_formula (Fin 100) (Fin 100) (Fin 1) (Fin 1) (Fin 0) = Fin (1 / 2)"
  by (simp add: w_formula_def Pow_def)

theorem BlackScholes_formula_witness:
  "BlackScholes (Fin 100) (Fin 100) (Fin 1) (Fin 1) (Fin 0) ''CALL''
     = Fin 100 * StdNormCDF (Fin (1 / 2)) - Fin 100 * StdNormCDF (Fin (- 1 / 2))
   \<and> BlackScholes (Fin 100) (Fin 100) (Fin 1) (Fin 1) (Fin 0) ''PUT''
     = Fin 100 * StdNormCDF (Fin (1 / 2)) - Fin 100 * StdNormCDF (Fin (- 1 / 2))"
  using BlackScholes_formula [of "Fin 100" "Fin 100" "Fin 1" "Fin 1" "Fin 0"]
  by (simp add: w_formula_at_the_money)

section \<open>The kind argument\<close>




section \<open>Delta and rho\<close>

text \<open>
  Claim C6. With kind \<^verbatim>\<open>"CALL"\<close>, \<^verbatim>\<open>GetDelta\<close> returns \<open>\<Phi>(w)\<close> when \<open>w\<close> is finite, and
  otherwise 1 if \<open>s > k\<close> and 0 if not. With kind \<^verbatim>\<open>"PUT"\<close> it returns the CALL delta
  minus 1, except that it returns 0 when that difference is exactly \<open>-1\<close> and \<open>s == k\<close>.
\<close>

theorem GetDelta_values:
  "GetDelta s k t v r ''CALL''
     = (if isFinite (GetW s k t v r) then StdNormCDF (GetW s k t v r)
        else if s > k then Fin 1 else Fin 0, None)
   \<and> GetDelta s k t v r ''PUT''
     = (if feq (fst (GetDelta s k t v r ''CALL'') - Fin 1) (Fin (- 1)) \<and> feq s k then Fin 0
        else fst (GetDelta s k t v r ''CALL'') - Fin 1, None)"
  by (simp add: GetDelta_def callDelta_def putDelta_def Let_def feq_commute [of k s])

lemma GetW_degenerate: "GetW (Fin 1) (Fin 1) (Fin 1) (Fin 1) (Fin (- 9)) = Fin (- 17 / 2)"
  by (simp add: GetW_def Pow_Fin_2)

lemma GetW_expired: "GetW (Fin 2) (Fin 1) (Fin 0) (Fin 1) (Fin 0) = PInf"
  by (simp add: GetW_def Pow_Fin_2 ln_div)

theorem GetDelta_values_witness:
  "GetDelta (Fin 1) (Fin 1) (Fin 1) (Fin 1) (Fin (- 9)) ''CALL'' = (Fin 0, None)
   \<and> GetDelta (Fin 1) (Fin 1) (Fin 1) (Fin 1) (Fin (- 9)) ''PUT'' = (Fin 0, None)
   \<and> GetDelta (Fin 2) (Fin 1) (Fin 0) (Fin 1) (Fin 0) ''CALL'' = (Fin 1, None)
   \<and> GetDelta (Fin 2) (Fin 1) (Fin 0) (Fin 1) (Fin 0) ''PUT'' = (Fin 0, None)"
  using GetDelta_values [of "Fin 1" "Fin 1" "Fin 1" "Fin 1" "Fin (- 9)"]
    GetDelta_values [of "Fin 2" "Fin 1" "Fin 0" "Fin 1" "Fin 0"]
  by (simp add: GetW_degenerate GetW_expired isFinite_def IsInf_def IsNaN_def feq_def
      StdNormCDF_def)

text \<open>
  Claim C7. With kind \<^verbatim>\<open>"call"\<close>, \<^verbatim>\<open>GetRho\<close> returns
  \<open>k\<cdot>t\<cdot>e^(-r\<cdot>t)\<cdot>\<Phi>(w - v\<surd>t) / scale\<close>, and with any other kind
  \<open>-k\<cdot>t\<cdot>e^(-r\<cdot>t)\<cdot>\<Phi>(v\<surd>t - w) / scale\<close>; the numerator is replaced by 0 exactly when \<open>w\<close> is
  NaN (an infinite \<open>w\<close> is not), and a \<open>scale\<close> of 0 stands for 100.
\<close>

theorem GetRho_values:
  "GetRho s k t v r callPut scale
     = (if callPut = ''call''
        then (if IsNaN (GetW s k t v r) then Fin 0
              else k * t * Exp (- (r * t)) * StdNormCDF (GetW s k t v r - v * Sqrt t))
             / Fin (of_int (if scale = 0 then 100 else scale))
        else (if IsNaN (GetW s k t v r) then Fin 0
              else - (k * t * Exp (- (r * t)) * StdNormCDF (v * Sqrt t - GetW s k t v r)))
             / Fin (of_int (if scale = 0 then 100 else scale)))"
  by (simp add: GetRho_def callRho_def putRho_def Let_def fmul_uminus_left)

lemma GetW_zero_vol: "GetW (Fin 2) (Fin 1) (Fin 1) (Fin 0) (Fin 0) = PInf"
  by (simp add: GetW_def Pow_Fin_2 ln_div)

lemma GetW_NaN: "GetW (Fin 1) (Fin 1) (Fin 1) (Fin 0) (Fin 0) = NaN"
  by (simp add: GetW_def Pow_Fin_2)

theorem GetRho_values_witness:
  "GetRho (Fin 2) (Fin 1) (Fin 1) (Fin 0) (Fin 0) ''call'' 0 = Fin (1 / 100)
   \<and> GetRho (Fin 2) (Fin 1) (Fin 1) (Fin 0) (Fin 0) ''put'' 0 = Fin 0
   \<and> GetRho (Fin 1) (Fin 1) (Fin 1) (Fin 0) (Fin 0) ''call'' 0 = Fin 0"
  using GetRho_values [of "Fin 2" "Fin 1" "Fin 1" "Fin 0" "Fin 0" "''call''" 0]
    GetRho_values [of "Fin 2" "Fin 1" "Fin 1" "Fin 0" "Fin 0" "''put''" 0]
    GetRho_values [of "Fin 1" "Fin 1" "Fin 1" "Fin 0" "Fin 0" "''call''" 0]
  by (simp add: GetW_zero_vol GetW_NaN IsNaN_def StdNormCDF_def minus_float64_def)

text \<open>
  Claim C9. For a kind that is neither \<^verbatim>\<open>"CALL"\<close> nor \<^verbatim>\<open>"PUT"\<close>, \<^verbatim>\<open>GetDelta\<close> returns
  the value 0 together with an error whose message ends with the kind it was given; for
  \<^verbatim>\<open>"CALL"\<close> and for \<^verbatim>\<open>"PUT"\<close> the error is \<^verbatim>\<open>nil\<close>.
\<close>

theorem GetDelta_error:
  "(callPut \<noteq> ''CALL'' \<and> callPut \<noteq> ''PUT'' \<longrightarrow>
      GetDelta s k t v r callPut
        = (Fin 0, Some (''callput is not of type CALL or PUT '' @ callPut)))
   \<and> snd (GetDelta s k t v r ''CALL'') = None
   \<and> snd (GetDelta s k t v r ''PUT'') = None"
  by (simp add: GetDelta_def)

theorem GetDelta_error_witness:
  "''BOGUS'' \<noteq> ''CALL'' \<and> ''BOGUS'' \<noteq> ''PUT''
   \<and> GetDelta (Fin 49) (Fin 50) (Fin 1) (Fin 1) (Fin 0) ''BOGUS''
        = (Fin 0, Some ''callput is not of type CALL or PUT BOGUS'')"
  using GetDelta_error [of "''BOGUS''" "Fin 49" "Fin 50" "Fin 1" "Fin 1" "Fin 0"]
  by simp

section \<open>The implied-volatility solver\<close>

lemma GetImpliedVolatility_loop_bisection:
  "i \<le> 100 \<Longrightarrow>
     GetImpliedVolatility_loop c s k t r callPut (int i) low high estimate
       = bisection_spec cent_trunc (\<lambda>v. BlackScholes s k t v r callPut) c
           (100 - i) low high estimate"
proof (induction "100 - i" arbitrary: i low high estimate)
  case 0
  then have "i = 100" by simp
  then show ?case by (simp add: GetImpliedVolatility_loop.simps [of _ _ _ _ _ _ 100])
next
  case (Suc n)
  then have lt: "i < 100" and n: "n = 100 - Suc i" and le: "Suc i \<le> 100"
    and fuel: "100 - i = Suc n" by simp_all
  have next_i: "int i + 1 = int (Suc i)" by simp
  have mid_lo: "(estimate - low) / Fin 2 + low = low + (estimate - low) / Fin 2"
    by (rule fadd_commute)
  have mid_hi: "(high - estimate) / Fin 2 + estimate = estimate + (high - estimate) / Fin 2"
    by (rule fadd_commute)
  have IH: "\<And>lo hi e. GetImpliedVolatility_loop c s k t r callPut (int i + 1) lo hi e
      = bisection_spec cent_trunc (\<lambda>v. BlackScholes s k t v r callPut) c n lo hi e"
    using Suc.hyps(1) [OF n le] n by (simp add: next_i)
  have "GetImpliedVolatility_loop c s k t r callPut (int i) low high estimate
      = bisection_spec cent_trunc (\<lambda>v. BlackScholes s k t v r callPut) c
          (Suc n) low high estimate"
    apply (subst GetImpliedVolatility_loop.simps)
    using lt apply (simp add: IH mid_lo mid_hi cent_trunc_def)
    done
  then show ?case by (simp only: fuel)
qed

lemma GetImpliedVolatility_bisection:
  "GetImpliedVolatility c s k t r callPut e
     = bisection_spec cent_trunc (\<lambda>v. BlackScholes s k t v r callPut) c 100 (Fin 0) PInf
         (if feq e (Fin 0) then Fin 0.1 else e)"
  using GetImpliedVolatility_loop_bisection [of 0 c s k t r callPut]
  by (simp add: GetImpliedVolatility_def)

lemma bisection_spec_halving:
  assumes price: "\<And>v. 0 < v \<Longrightarrow> v \<le> 1 \<Longrightarrow> price (Fin v) = P"
    and differ: "\<not> same_cent target P"
    and above: "P > target"
  shows "0 < e \<Longrightarrow> e \<le> 1 \<Longrightarrow>
           bisection_spec same_cent price target n (Fin 0) high (Fin e) = Fin (e / 2 ^ n)"
proof (induction n arbitrary: e high)
  case 0
  show ?case by simp
next
  case (Suc n)
  have half: "0 < e / 2" "e / 2 \<le> 1" using Suc.prems by simp_all
  show ?case
    using differ above by (simp add: price [OF Suc.prems] Suc.IH [OF half])
qed

lemma bisection_spec_stop:
  "same_cent target (price e) \<Longrightarrow>
     bisection_spec same_cent price target (Suc n) low high e = e"
  by simp

lemma worthless_call:
  assumes "0 < v" "v \<le> 1"
  shows "BlackScholes (Fin 1) (Fin 1) (Fin 1) (Fin v) (Fin (- 9)) ''CALL'' = Fin 0"
proof -
  have w: "w_spec 1 1 1 v (- 9) = (v\<^sup>2 / 2 - 9) / v"
    by (simp add: w_spec_def)
  have "v\<^sup>2 \<le> 1" using assms by (simp add: power_le_one)
  then have "v\<^sup>2 / 2 - 9 \<le> - 8 * v" using assms by simp
  then have le: "w_spec 1 1 1 v (- 9) \<le> - 8"
    using assms by (simp add: w pos_divide_le_eq)
  then have le': "w_spec 1 1 1 v (- 9) - v * sqrt 1 \<le> - 8" using assms by simp
  show ?thesis
    using assms BlackScholes_Fin_CALL [of 1 1 1 v "- 9"]
    by (simp only: StdNormCDF_low [OF le] StdNormCDF_low [OF le']) simp
qed

lemma cents_below_zero:
  "cent_trunc (Fin (- 1 / 128)) (Fin 0) \<and> \<not> cent_floor (Fin (- 1 / 128)) (Fin 0)"
  by (simp add: cent_trunc_def cent_floor_def go_int_def feq_def)

lemma ln_65536: "9 \<le> ln (65536::real)"
proof -
  have "exp (9::real) = exp 1 ^ 9"
    using exp_of_nat_mult [of 9 "1::real"] by simp
  also have "\<dots> \<le> 3 ^ 9"
    by (rule power_mono) (simp_all add: exp_le)
  also have "\<dots> \<le> (65536::real)" by simp
  finally show ?thesis by (simp add: ln_ge_iff)
qed

lemma deep_call:
  assumes "0 < v" "v \<le> 1"
  shows "BlackScholes (Fin 65536) (Fin 1) (Fin 1) (Fin v) (Fin 0) ''CALL'' = Fin 65535"
proof -
  have w: "w_spec 65536 1 1 v 0 = (v\<^sup>2 / 2 + ln 65536) / v"
    by (simp add: w_spec_def ln_div)
  have sq: "0 \<le> v\<^sup>2" "v\<^sup>2 \<le> 1" using assms by (simp_all add: power_le_one)
  have "8 * v \<le> v\<^sup>2 / 2 + ln 65536" using assms sq ln_65536 by linarith
  then have ge: "8 \<le> w_spec 65536 1 1 v 0"
    using assms by (simp add: w pos_le_divide_eq)
  have "8 * v \<le> v\<^sup>2 / 2 + ln 65536 - v\<^sup>2"
    using assms sq ln_65536 by linarith
  then have "8 * v \<le> v\<^sup>2 / 2 + ln 65536 - v * v"
    by (simp add: power2_eq_square)
  then have "8 \<le> (v\<^sup>2 / 2 + ln 65536 - v * v) / v"
    using assms by (simp add: pos_le_divide_eq)
  also have "(v\<^sup>2 / 2 + ln 65536 - v * v) / v = w_spec 65536 1 1 v 0 - v * sqrt 1"
    using assms by (simp add: w diff_divide_distrib)
  finally have ge': "8 \<le> w_spec 65536 1 1 v 0 - v * sqrt 1" .
  show ?thesis
    using assms BlackScholes_Fin_CALL [of 65536 1 1 v 0]
    by (simp only: StdNormCDF_high [OF ge] StdNormCDF_high [OF ge']) simp
qed

lemma far_call:
  assumes "0 < v" "v \<le> 1"
  shows "BlackScholes (Fin 1) (Fin 65536) (Fin 1) (Fin v) (Fin 0) ''CALL'' = Fin 0"
proof -
  have w: "w_spec 1 65536 1 v 0 = (v\<^sup>2 / 2 - ln 65536) / v"
    by (simp add: w_spec_def)
  have sq: "0 \<le> v\<^sup>2" "v\<^sup>2 \<le> 1" using assms by (simp_all add: power_le_one)
  have "v\<^sup>2 / 2 - ln 65536 \<le> - 8 * v" using assms sq ln_65536 by linarith
  then have le: "w_spec 1 65536 1 v 0 \<le> - 8"
    using assms by (simp add: w pos_divide_le_eq)
  then have le': "w_spec 1 65536 1 v 0 - v * sqrt 1 \<le> - 8" using assms by simp
  show ?thesis
    using assms BlackScholes_Fin_CALL [of 1 65536 1 v 0]
    by (simp only: StdNormCDF_low [OF le] StdNormCDF_low [OF le']) simp
qed

lemma cents_of_zero:
  "cent_trunc (Fin 0) (Fin 0) \<and> \<not> cent_trunc (Fin 0) (Fin 65535)"
  by (simp add: cent_trunc_def go_int_def)

text \<open>
  Claim C4, as amended. \<^verbatim>\<open>GetImpliedVolatility\<close> is the bisection of the specification:
  an initial estimate equal to 0 is replaced by 0.1; at most 100 iterations; an iteration
  stops iff \<^verbatim>\<open>int(targetPrice*100) == int(actualCost*100)\<close>, where \<^verbatim>\<open>int\<close> is Go's
  conversion, which truncates towards zero; when \<open>actualCost > targetPrice\<close> it sets
  \<open>high = estimate\<close> and \<open>estimate = low + (estimate - low)/2\<close>; otherwise it sets
  \<open>low = estimate\<close> and \<open>estimate = estimate + (high - estimate)/2\<close>, or \<open>low\<cdot>2\<close> when that
  midpoint is not finite; the result is the estimate at the end of the loop.
\<close>

theorem GetImpliedVolatility_algorithm:
  "GetImpliedVolatility targetPrice s k t r kind initialEstimate
     = bisection_spec cent_trunc (\<lambda>estimate. BlackScholes s k t estimate r kind) targetPrice
         100 (Fin 0) PInf
         (if feq initialEstimate (Fin 0) then Fin 0.1 else initialEstimate)"
  by (rule GetImpliedVolatility_bisection)

theorem GetImpliedVolatility_algorithm_witness:
  "GetImpliedVolatility (Fin 0) (Fin 1) (Fin 65536) (Fin 1) (Fin 0) ''CALL'' (Fin 0)
     = Fin (1 / 10)"
proof -
  have fuel: "(100::nat) = Suc 99" by simp
  have price: "BlackScholes (Fin 1) (Fin 65536) (Fin 1) (Fin (1 / 10)) (Fin 0) ''CALL'' = Fin 0"
    by (rule far_call) simp_all
  have "bisection_spec cent_trunc
      (\<lambda>v. BlackScholes (Fin 1) (Fin 65536) (Fin 1) v (Fin 0) ''CALL'')
      (Fin 0) (Suc 99) (Fin 0) PInf (Fin (1 / 10)) = Fin (1 / 10)"
    using cents_of_zero by (intro bisection_spec_stop) (simp add: price)
  then show ?thesis
    by (simp only: GetImpliedVolatility_algorithm fuel feq_def) simp
qed

text \<open>
  Claim C4 as the specification words it, with \<^verbatim>\<open>floor\<close> in the test of step 2b, fails
  for a target price below zero. For the target \<open>-1/128\<close> and a contract whose price is 0
  at every volatility up to 1 (\<open>s = k = 1\<close>, \<open>t = 1\<close>, \<open>r = -9\<close>, CALL), the code stops in
  its first iteration, since \<^verbatim>\<open>int(-0.78125)\<close> and \<^verbatim>\<open>int(0)\<close> are both 0, and returns
  the initial estimate 1; with \<open>floor(-0.78125) = -1\<close> the test never holds and the
  estimate is halved 100 times.
\<close>

theorem floor_test_counterexample:
  "GetImpliedVolatility (Fin (- 1 / 128)) (Fin 1) (Fin 1) (Fin 1) (Fin (- 9)) ''CALL'' (Fin 1)
     = Fin 1
   \<and> impliedVolatility_spec cent_floor
        (Fin (- 1 / 128)) (Fin 1) (Fin 1) (Fin 1) (Fin (- 9)) ''CALL'' (Fin 1)
     = Fin (1 / 2 ^ 100)"
proof -
  have first: "BlackScholes (Fin 1) (Fin 1) (Fin 1) (Fin 1) (Fin (- 9)) ''CALL'' = Fin 0"
    by (rule worthless_call) simp_all
  have code: "GetImpliedVolatility (Fin (- 1 / 128)) (Fin 1) (Fin 1) (Fin 1) (Fin (- 9))
      ''CALL'' (Fin 1) = Fin 1"
  proof -
    have fuel: "(100::nat) = Suc 99" by simp
    have "bisection_spec cent_trunc
        (\<lambda>v. BlackScholes (Fin 1) (Fin 1) (Fin 1) v (Fin (- 9)) ''CALL'')
        (Fin (- 1 / 128)) (Suc 99) (Fin 0) PInf (Fin 1) = Fin 1"
      using cents_below_zero by (intro bisection_spec_stop) (simp add: first)
    then show ?thesis
      by (simp only: GetImpliedVolatility_bisection fuel feq_def) simp
  qed
  have spec: "impliedVolatility_spec cent_floor
      (Fin (- 1 / 128)) (Fin 1) (Fin 1) (Fin 1) (Fin (- 9)) ''CALL'' (Fin 1) = Fin (1 / 2 ^ 100)"
    unfolding impliedVolatility_spec_def
    using bisection_spec_halving
        [where price = "\<lambda>v. BlackScholes (Fin 1) (Fin 1) (Fin 1) v (Fin (- 9)) ''CALL''"
        and P = "Fin 0" and same_cent = cent_floor and target = "Fin (- 1 / 128)" and e = 1
        and n = 100 and high = PInf]
      worthless_call cents_below_zero
    by (simp add: feq_def)
  show ?thesis using code spec by simp
qed

text \<open>
  Claim C1, as amended. The second parameter of \<^verbatim>\<open>GetImpliedVolatility\<close> is the
  underlying and the third the strike: the call with \<open>(targetPrice, a, b, \<dots>)\<close> is the
  specification's operation for the strike \<open>b\<close> and the underlying \<open>a\<close>, that is, it
  evaluates the pricer as \<^verbatim>\<open>price(a, b, t, estimate, r, kind)\<close>.
\<close>

theorem GetImpliedVolatility_argument_order:
  "GetImpliedVolatility targetPrice a b t r kind initialEstimate
     = impliedVolatility_spec cent_trunc targetPrice b a t r kind initialEstimate"
  by (simp add: GetImpliedVolatility_bisection impliedVolatility_spec_def)

theorem GetImpliedVolatility_argument_order_witness:
  "GetImpliedVolatility (Fin 0) (Fin 65536) (Fin 1) (Fin 1) (Fin 0) ''CALL'' (Fin 1)
     = impliedVolatility_spec cent_trunc (Fin 0) (Fin 1) (Fin 65536) (Fin 1) (Fin 0) ''CALL''
         (Fin 1)"
  by (rule GetImpliedVolatility_argument_order)

text \<open>
  Claim C1 as the specification words it, with the strike second and the underlying
  third, fails. For the call with \<open>(0, 65536, 1, 1, 0, "CALL", 1)\<close> the code prices an
  underlying of 65536 against a strike of 1: the price is 65535 at every volatility up
  to 1, never the target 0, and the estimate is halved 100 times. The specification's
  operation prices an underlying of 1 against a strike of 65536: the price is 0, the
  target, and the initial estimate 1 is returned at once.
\<close>

theorem argument_order_counterexample:
  "GetImpliedVolatility (Fin 0) (Fin 65536) (Fin 1) (Fin 1) (Fin 0) ''CALL'' (Fin 1)
     = Fin (1 / 2 ^ 100)
   \<and> impliedVolatility_spec cent_trunc
        (Fin 0) (Fin 65536) (Fin 1) (Fin 1) (Fin 0) ''CALL'' (Fin 1)
     = Fin 1"
proof -
  have code: "GetImpliedVolatility (Fin 0) (Fin 65536) (Fin 1) (Fin 1) (Fin 0) ''CALL'' (Fin 1)
      = Fin (1 / 2 ^ 100)"
    unfolding GetImpliedVolatility_bisection
    using bisection_spec_halving
        [where price = "\<lambda>v. BlackScholes (Fin 65536) (Fin 1) (Fin 1) v (Fin 0) ''CALL''"
        and P = "Fin 65535" and same_cent = cent_trunc and target = "Fin 0" and e = 1
        and n = 100 and high = PInf]
      deep_call cents_of_zero
    by (simp add: feq_def)
  have spec: "impliedVolatility_spec cent_trunc
      (Fin 0) (Fin 65536) (Fin 1) (Fin 1) (Fin 0) ''CALL'' (Fin 1) = Fin 1"
  proof -
    have fuel: "(100::nat) = Suc 99" by simp
    have price: "BlackScholes (Fin 1) (Fin 65536) (Fin 1) (Fin 1) (Fin 0) ''CALL'' = Fin 0"
      by (rule far_call) simp_all
    have "bisection_spec cent_trunc
        (\<lambda>v. BlackScholes (Fin 1) (Fin 65536) (Fin 1) v (Fin 0) ''CALL'')
        (Fin 0) (Suc 99) (Fin 0) PInf (Fin 1) = Fin 1"
      using cents_of_zero by (intro bisection_spec_stop) (simp add: price)
    then show ?thesis
      by (simp only: impliedVolatility_spec_def fuel feq_def) simp
  qed
  show ?thesis using code spec by simp
qed

end
